theory Spec2Isabelle
  imports Main "HOL-Library.Multiset"
begin

section \<open>Python values\<close>

text \<open>
  A Python \<open>str\<close> is modelled as a \<open>string\<close> holding its UTF-8 bytes: an ASCII
  literal is written as it stands in \<open>health_checker.py\<close>, and a symbol outside ASCII is
  the byte sequence the source file holds for it. UTF-8 is injective, so two Python strings
  are equal exactly when their models are. Python's \<open>int\<close> is \<open>int\<close>.
  What the program prints is a list with one element for each call of \<open>print\<close>,
  in the order of the calls (the element is the argument, without the newline that
  \<open>print\<close> appends).
\<close>

type_synonym printed = "string list"

text \<open>The symbols of the source, named by their code points.\<close>

abbreviation U_274C :: string where \<comment> \<open>cross mark\<close>
  "U_274C \<equiv> [CHR 0xE2, CHR 0x9D, CHR 0x8C]"
abbreviation U_2705 :: string where \<comment> \<open>white heavy check mark\<close>
  "U_2705 \<equiv> [CHR 0xE2, CHR 0x9C, CHR 0x85]"
abbreviation U_1F6D1 :: string where \<comment> \<open>stop sign\<close>
  "U_1F6D1 \<equiv> [CHR 0xF0, CHR 0x9F, CHR 0x9B, CHR 0x91]"
abbreviation U_23F3 :: string where \<comment> \<open>hourglass\<close>
  "U_23F3 \<equiv> [CHR 0xE2, CHR 0x8F, CHR 0xB3]"
abbreviation U_1F480 :: string where \<comment> \<open>skull\<close>
  "U_1F480 \<equiv> [CHR 0xF0, CHR 0x9F, CHR 0x92, CHR 0x80]"
abbreviation U_26A0_FE0F :: string where \<comment> \<open>warning sign, emoji variant\<close>
  "U_26A0_FE0F \<equiv> [CHR 0xE2, CHR 0x9A, CHR 0xA0, CHR 0xEF, CHR 0xB8, CHR 0x8F]"
abbreviation U_2139_FE0F :: string where \<comment> \<open>information source, emoji variant\<close>
  "U_2139_FE0F \<equiv> [CHR 0xE2, CHR 0x84, CHR 0xB9, CHR 0xEF, CHR 0xB8, CHR 0x8F]"
abbreviation U_1F6A8 :: string where \<comment> \<open>police car light\<close>
  "U_1F6A8 \<equiv> [CHR 0xF0, CHR 0x9F, CHR 0x9A, CHR 0xA8]"
abbreviation U_2753 :: string where \<comment> \<open>question mark ornament\<close>
  "U_2753 \<equiv> [CHR 0xE2, CHR 0x9D, CHR 0x93]"
abbreviation U_1F4CA :: string where \<comment> \<open>bar chart\<close>
  "U_1F4CA \<equiv> [CHR 0xF0, CHR 0x9F, CHR 0x93, CHR 0x8A]"

abbreviation U_1F4C4 :: string where \<comment> \<open>page facing up\<close>
  "U_1F4C4 \<equiv> [CHR 0xF0, CHR 0x9F, CHR 0x93, CHR 0x84]"
abbreviation U_1F50D :: string where \<comment> \<open>magnifying glass\<close>
  "U_1F50D \<equiv> [CHR 0xF0, CHR 0x9F, CHR 0x94, CHR 0x8D]"
abbreviation U_1F4C5 :: string where \<comment> \<open>calendar\<close>
  "U_1F4C5 \<equiv> [CHR 0xF0, CHR 0x9F, CHR 0x93, CHR 0x85]"
abbreviation U_1F30D :: string where \<comment> \<open>globe\<close>
  "U_1F30D \<equiv> [CHR 0xF0, CHR 0x9F, CHR 0x8C, CHR 0x8D]"

text \<open>\<open>'=' * 50\<close>, and the f-string \<open>f"\n{'='*50}"\<close> of the section headers.\<close>

definition rule50 :: string where
  "rule50 = replicate 50 CHR ''=''"

definition nl_rule50 :: string where
  "nl_rule50 = CHR 0x0A # rule50"

text \<open>\<open>str\<close> on an \<open>int\<close>, as an f-string formats it: decimal, a minus sign when negative.\<close>

function str_nat :: "nat \<Rightarrow> string" where
  "str_nat n =
     (if n < 10 then [''0123456789'' ! n]
      else str_nat (n div 10) @ [''0123456789'' ! (n mod 10)])"
  by pat_completeness auto
termination
  by (relation "measure id") auto

definition str_int :: "int \<Rightarrow> string" where
  "str_int i = (if i < 0 then ''-'' @ str_nat (nat (- i)) else str_nat (nat i))"

text \<open>\<open>len\<close>, and \<open>sum\<close> over the items a generator yields (start value 0, added left to right).\<close>

definition len :: "'a list \<Rightarrow> int" where
  "len xs = int (length xs)"

definition py_sum :: "int list \<Rightarrow> int" where
  "py_sum xs = foldl (+) 0 xs"

text \<open>\<open>d.get(k, default)\<close> on a dict literal, kept as the list of its items.\<close>

definition dict_get :: "('k \<times> 'v) list \<Rightarrow> 'k \<Rightarrow> 'v \<Rightarrow> 'v" where
  "dict_get d k dflt = (case map_of d k of None \<Rightarrow> dflt | Some v \<Rightarrow> v)"

section \<open>Records\<close>

text \<open>
  The dict built at lines 50-55 always has the four keys below, and the one built at lines
  111-116 the four of \<open>alarm_info\<close> (its keys \<open>'name'\<close> and \<open>'state'\<close> are the fields
  \<open>alarm_name\<close> and \<open>alarm_state\<close> here, since a field name is global in HOL).
\<close>

record instance_info =
  instance_id :: string
  instance_type :: string
  state :: string
  name :: string

record alarm_info =
  alarm_name :: string
  alarm_state :: string
  metric :: string
  description :: string

text \<open>
  The provider's answers. A key the program reads with \<open>[...]\<close> is a field; a key it reads
  with \<open>.get\<close> and a default (\<open>Tags\<close>, \<open>AlarmDescription\<close>) is optional.
\<close>

record raw_tag =
  Key :: string
  Value :: string

record instance_state =
  Name :: string

record raw_instance =
  InstanceId :: string
  InstanceType :: string
  State :: instance_state
  Tags :: "raw_tag list option"

record reservation =
  Instances :: "raw_instance list"

record ec2_response =
  Reservations :: "reservation list"

record raw_alarm =
  AlarmName :: string
  StateValue :: string
  MetricName :: string
  AlarmDescription :: "string option"

record cloudwatch_response =
  MetricAlarms :: "raw_alarm list"

text \<open>
  How creating a client and calling it ends: with the response, with one of the two
  exceptions the checks catch (\<open>ClientError\<close> with \<open>e.response['Error']['Message']\<close>), or
  with any other exception, which the checks let through.
\<close>

datatype 'r api_call =
  Returns 'r
| NoCredentialsError
| ClientError string
| OtherException string

section \<open>The summary (\<open>generate_summary\<close>)\<close>

text \<open>The local variables of \<open>generate_summary\<close> after lines 151-159.\<close>

record tallies =
  total_instances :: int
  running :: int
  stopped :: int
  other :: int
  total_alarms :: int
  alarming :: int
  ok_alarms :: int

definition tally :: "instance_info list \<Rightarrow> alarm_info list \<Rightarrow> tallies" where
  "tally instances alarms =
     (let total_instances = len instances;
          running = py_sum (map (\<lambda>i. 1) (filter (\<lambda>i. state i = ''running'') instances));
          stopped = py_sum (map (\<lambda>i. 1) (filter (\<lambda>i. state i = ''stopped'') instances));
          other = total_instances - running - stopped;
          total_alarms = len alarms;
          alarming = py_sum (map (\<lambda>a. 1) (filter (\<lambda>a. alarm_state a = ''ALARM'') alarms));
          ok_alarms = py_sum (map (\<lambda>a. 1) (filter (\<lambda>a. alarm_state a = ''OK'') alarms))
      in \<lparr>total_instances = total_instances, running = running, stopped = stopped,
          other = other, total_alarms = total_alarms, alarming = alarming,
          ok_alarms = ok_alarms\<rparr>)"

text \<open>Lines 162-172: the counts, with the line for \<open>other\<close> only when it is positive.\<close>

definition display_summary :: "tallies \<Rightarrow> printed" where
  "display_summary t =
     [CHR 0x0A # U_1F4CA @ '' EC2 Instances:'',
      ''   Total: '' @ str_int (total_instances t),
      ''   Running: '' @ str_int (running t),
      ''   Stopped: '' @ str_int (stopped t)]
     @ (if other t > 0 then [''   Other: '' @ str_int (other t)] else [])
     @ [CHR 0x0A # U_1F4CA @ '' CloudWatch Alarms:'',
        ''   Total: '' @ str_int (total_alarms t),
        ''   OK: '' @ str_int (ok_alarms t),
        ''   In Alarm: '' @ str_int (alarming t)]"

text \<open>Lines 176-183: the overall health assessment, the one line the chain prints.\<close>

definition assessment :: "tallies \<Rightarrow> string" where
  "assessment t =
     (if alarming t > 0 then
        U_26A0_FE0F @ ''  ATTENTION: There are active alarms that need investigation!''
      else if running t = total_instances t \<and> total_instances t > 0 then
        U_2705 @ '' ALL SYSTEMS HEALTHY''
      else if total_instances t = 0 \<and> total_alarms t = 0 then
        U_2139_FE0F @ ''  No resources found to monitor''
      else
        U_26A0_FE0F @ ''  Some instances are not running'')"

text \<open>Lines 186-192: the dict returned, as the list of its items in the order written.\<close>

type_synonym summary = "(string \<times> int) list"

definition summary_dict :: "tallies \<Rightarrow> summary" where
  "summary_dict t =
     [(''total_instances'', total_instances t),
      (''running_instances'', running t),
      (''stopped_instances'', stopped t),
      (''total_alarms'', total_alarms t),
      (''active_alarms'', alarming t)]"

definition generate_summary :: "instance_info list \<Rightarrow> alarm_info list \<Rightarrow> printed \<times> summary" where
  "generate_summary instances alarms =
     (let t = tally instances alarms
      in ([nl_rule50, ''SUMMARY'', rule50]
          @ display_summary t
          @ [nl_rule50, assessment t, rule50],
          summary_dict t))"

section \<open>The EC2 check (\<open>check_ec2_instances\<close>)\<close>

text \<open>
  Lines 58-61: the loop over the tags, started with the name \<open>'Unnamed'\<close> of line 54. It
  stops (\<open>break\<close>) at the first tag whose key is \<open>'Name'\<close>.
\<close>

fun name_tag :: "raw_tag list \<Rightarrow> string \<Rightarrow> string" where
  "name_tag [] nm = nm"
| "name_tag (tag # tags) nm = (if Key tag = ''Name'' then Value tag else name_tag tags nm)"

text \<open>Lines 50-61: the record of one instance; \<open>instance.get('Tags', [])\<close> is the case.\<close>

definition instance_info_of :: "raw_instance \<Rightarrow> instance_info" where
  "instance_info_of instance =
     \<lparr>instance_id = InstanceId instance,
      instance_type = InstanceType instance,
      state = Name (State instance),
      name = name_tag (case Tags instance of None \<Rightarrow> [] | Some tags \<Rightarrow> tags) ''Unnamed''\<rparr>"

text \<open>Lines 66-73: the indicator of an instance state.\<close>

definition ec2_status_icons :: "(string \<times> string) list" where
  "ec2_status_icons =
     [(''running'', U_2705),
      (''stopped'', U_1F6D1),
      (''pending'', U_23F3),
      (''stopping'', U_23F3),
      (''terminated'', U_1F480)]"

definition ec2_status :: "string \<Rightarrow> string" where
  "ec2_status st = dict_get ec2_status_icons st U_26A0_FE0F"

text \<open>Lines 75-76: the two lines printed for an instance.\<close>

definition display_instance :: "instance_info \<Rightarrow> printed" where
  "display_instance instance_info =
     [ec2_status (state instance_info) @ '' '' @ name instance_info
        @ '' ('' @ instance_id instance_info @ '')'',
      ''   Type: '' @ instance_type instance_info @ '', State: '' @ state instance_info]"

text \<open>
  Lines 48-76: the two nested loops. The state they thread is what has been printed and the
  list \<open>instances\<close>.
\<close>

fun instances_loop ::
  "raw_instance list \<Rightarrow> printed \<times> instance_info list \<Rightarrow> printed \<times> instance_info list" where
  "instances_loop [] s = s"
| "instances_loop (instance # rest) (out, instances) =
     (let instance_info = instance_info_of instance
      in instances_loop rest (out @ display_instance instance_info, instances @ [instance_info]))"

fun reservations_loop ::
  "reservation list \<Rightarrow> printed \<times> instance_info list \<Rightarrow> printed \<times> instance_info list" where
  "reservations_loop [] s = s"
| "reservations_loop (reservation # rest) s =
     reservations_loop rest (instances_loop (Instances reservation) s)"

text \<open>
  The whole check. \<open>describe_instances region\<close> is how \<open>boto3.client\<close> followed by
  \<open>describe_instances\<close> ends. The result is what was printed, and either the exception
  that left the function or the list returned.
\<close>

definition check_ec2_instances ::
  "(string \<Rightarrow> ec2_response api_call) \<Rightarrow> string \<Rightarrow> printed \<times> (string + instance_info list)" where
  "check_ec2_instances describe_instances region =
     (let out = [nl_rule50, ''EC2 INSTANCE STATUS'', rule50]
      in case describe_instances region of
           NoCredentialsError \<Rightarrow>
             (out @ [U_274C @ '' Error: AWS credentials not configured'',
                     ''   Run '' @ [CHR 0x27] @ ''aws configure'' @ [CHR 0x27]
                       @ '' to set up credentials''],
              Inr [])
         | ClientError message \<Rightarrow> (out @ [U_274C @ '' Error: '' @ message], Inr [])
         | OtherException e \<Rightarrow> (out, Inl e)
         | Returns response \<Rightarrow>
             (let (out', instances) = reservations_loop (Reservations response) (out, [])
              in (if instances = []
                  then out' @ [U_2139_FE0F @ ''  No EC2 instances found in this region.'']
                  else out',
                  Inr instances)))"

section \<open>The CloudWatch check (\<open>check_cloudwatch_alarms\<close>)\<close>

text \<open>Lines 111-116; \<open>alarm.get('AlarmDescription', 'No description')\<close> is the case.\<close>

definition alarm_info_of :: "raw_alarm \<Rightarrow> alarm_info" where
  "alarm_info_of alarm =
     \<lparr>alarm_name = AlarmName alarm,
      alarm_state = StateValue alarm,
      metric = MetricName alarm,
      description = (case AlarmDescription alarm of None \<Rightarrow> ''No description'' | Some d \<Rightarrow> d)\<rparr>"

text \<open>Lines 119-124: the indicator of an alarm state.\<close>

definition alarm_status_icons :: "(string \<times> string) list" where
  "alarm_status_icons =
     [(''OK'', U_2705),
      (''ALARM'', U_1F6A8),
      (''INSUFFICIENT_DATA'', U_26A0_FE0F)]"

definition alarm_status :: "string \<Rightarrow> string" where
  "alarm_status st = dict_get alarm_status_icons st U_2753"

text \<open>Lines 126-127.\<close>

definition display_alarm :: "alarm_info \<Rightarrow> printed" where
  "display_alarm alarm_info =
     [alarm_status (alarm_state alarm_info) @ '' '' @ alarm_name alarm_info,
      ''   State: '' @ alarm_state alarm_info @ '', Metric: '' @ metric alarm_info]"

text \<open>Lines 110-127: the loop over the alarms.\<close>

fun alarms_loop ::
  "raw_alarm list \<Rightarrow> printed \<times> alarm_info list \<Rightarrow> printed \<times> alarm_info list" where
  "alarms_loop [] s = s"
| "alarms_loop (alarm # rest) (out, alarms) =
     (let alarm_info = alarm_info_of alarm
      in alarms_loop rest (out @ display_alarm alarm_info, alarms @ [alarm_info]))"

definition check_cloudwatch_alarms ::
  "(string \<Rightarrow> cloudwatch_response api_call) \<Rightarrow> string \<Rightarrow> printed \<times> (string + alarm_info list)" where
  "check_cloudwatch_alarms describe_alarms region =
     (let out = [nl_rule50, ''CLOUDWATCH ALARM STATUS'', rule50]
      in case describe_alarms region of
           NoCredentialsError \<Rightarrow>
             (out @ [U_274C @ '' Error: AWS credentials not configured''], Inr [])
         | ClientError message \<Rightarrow> (out @ [U_274C @ '' Error: '' @ message], Inr [])
         | OtherException e \<Rightarrow> (out, Inl e)
         | Returns response \<Rightarrow>
             (let (out', alarms) = alarms_loop (MetricAlarms response) (out, [])
              in (if alarms = []
                  then out' @ [U_2139_FE0F @ ''  No CloudWatch alarms configured in this region.'']
                  else out',
                  Inr alarms)))"

section \<open>The report and the run (\<open>save_report\<close>, \<open>main\<close>)\<close>

text \<open>
  Lines 206-216: the document handed to \<open>json.dump\<close>. What \<open>json.dump\<close> writes for it is
  the library's business, not this program's.
\<close>

record report_metadata =
  generated_at :: string
  region :: string
  tool :: string
  author :: string

record report =
  metadata :: report_metadata
  report_instances :: "instance_info list"
  report_alarms :: "alarm_info list"
  report_summary :: summary

text \<open>
  What the run reads from outside: the two provider calls, the clock (formatted at line 256
  and at line 208) and whether \<open>open(filename, 'w')\<close> succeeds.
\<close>

record world =
  describe_instances :: "string \<Rightarrow> ec2_response api_call"
  describe_alarms :: "string \<Rightarrow> cloudwatch_response api_call"
  now_strftime :: string
  now_isoformat :: string
  can_open :: "string \<Rightarrow> bool"

text \<open>
  \<open>save_report\<close>: the result is what was printed, and either the exception of \<open>open\<close> or
  the file name with the document written to it.
\<close>

definition save_report ::
  "world \<Rightarrow> string \<Rightarrow> string \<Rightarrow> instance_info list \<Rightarrow> alarm_info list \<Rightarrow> summary
     \<Rightarrow> printed \<times> (string + string \<times> report)" where
  "save_report w filename rgn instances alarms smry =
     (let rep = \<lparr>metadata = \<lparr>generated_at = now_isoformat w,
                               region = rgn,
                               tool = ''AWS Health Checker'',
                               author = ''Marvelous Olabinjo''\<rparr>,
                 report_instances = instances,
                 report_alarms = alarms,
                 report_summary = smry\<rparr>
      in if can_open w filename
         then ([CHR 0x0A # U_1F4C4 @ '' Report saved to: '' @ filename], Inr (filename, rep))
         else ([], Inl ''OSError''))"

text \<open>The parsed command line: \<open>args.region\<close> and \<open>args.output\<close> (\<open>None\<close> when not given).\<close>

record args =
  args_region :: string
  args_output :: "string option"

text \<open>
  \<open>if args.output:\<close> is false for \<open>None\<close> and for the empty string; \<open>truthy\<close> gives the
  file name when the test holds.
\<close>

definition truthy :: "string option \<Rightarrow> string option" where
  "truthy v = (case v of None \<Rightarrow> None | Some s \<Rightarrow> if s = [] then None else Some s)"

text \<open>
  Lines 252-270. The result is everything printed, and either the exception that ended the
  run or the file written, if any.
\<close>

definition main :: "world \<Rightarrow> args \<Rightarrow> printed \<times> (string + (string \<times> report) option)" where
  "main w a =
     (let out0 = [CHR 0x0A # rule50,
                  U_1F50D @ '' AWS HEALTH CHECKER'',
                  rule50,
                  U_1F4C5 @ '' Report Time: '' @ now_strftime w,
                  U_1F30D @ '' Region: '' @ args_region a];
          done = CHR 0x0A # U_2705 @ '' Health check complete!'' @ [CHR 0x0A]
      in case check_ec2_instances (describe_instances w) (args_region a) of
           (out1, Inl e) \<Rightarrow> (out0 @ out1, Inl e)
         | (out1, Inr instances) \<Rightarrow>
             (case check_cloudwatch_alarms (describe_alarms w) (args_region a) of
                (out2, Inl e) \<Rightarrow> (out0 @ out1 @ out2, Inl e)
              | (out2, Inr alarms) \<Rightarrow>
                  (let (out3, smry) = generate_summary instances alarms
                   in case truthy (args_output a) of
                        Some filename \<Rightarrow>
                          (case save_report w filename (args_region a) instances alarms smry of
                             (out4, Inl e) \<Rightarrow> (out0 @ out1 @ out2 @ out3 @ out4, Inl e)
                           | (out4, Inr written) \<Rightarrow>
                               (out0 @ out1 @ out2 @ out3 @ out4 @ [done], Inr (Some written)))
                      | None \<Rightarrow> (out0 @ out1 @ out2 @ out3 @ [done], Inr None))))"

section \<open>The specification's overall status\<close>

text \<open>
  The specification names four overall statuses and gives the rule that chooses one
  (section 4.2, step 3). \<open>spec_overall_status\<close> follows the specification's words, in its
  order, from the four counts it names; it is compared below with \<open>assessment\<close>, which is
  the program's chain. The program shows the status as the line it prints, and
  \<open>status_banner\<close> is that line for each status.
\<close>

datatype overall_status = HEALTHY | ATTENTION | NO_RESOURCES | PARTIAL

definition spec_overall_status :: "int \<Rightarrow> int \<Rightarrow> int \<Rightarrow> int \<Rightarrow> overall_status" where
  "spec_overall_status alarming_count n_instances running_instances n_alarms =
     (if alarming_count > 0 then ATTENTION
      else if n_instances > 0 \<and> running_instances = n_instances then HEALTHY
      else if n_instances = 0 \<and> n_alarms = 0 then NO_RESOURCES
      else PARTIAL)"

fun status_banner :: "overall_status \<Rightarrow> string" where
  "status_banner ATTENTION =
     U_26A0_FE0F @ ''  ATTENTION: There are active alarms that need investigation!''"
| "status_banner HEALTHY = U_2705 @ '' ALL SYSTEMS HEALTHY''"
| "status_banner NO_RESOURCES = U_2139_FE0F @ ''  No resources found to monitor''"
| "status_banner PARTIAL = U_26A0_FE0F @ ''  Some instances are not running''"

section \<open>Counting\<close>

lemma foldl_add_ones: "foldl (+) a (map (\<lambda>x. 1) xs) = a + int (length xs)"
  by (induction xs arbitrary: a) auto

lemma py_sum_ones: "py_sum (map (\<lambda>x. 1) xs) = int (length xs)"
  by (simp add: py_sum_def foldl_add_ones)

lemma filter_partition3:
  "\<forall>x. \<not> (P x \<and> Q x) \<Longrightarrow>
   length (filter P xs) + length (filter Q xs) + length (filter (\<lambda>x. \<not> P x \<and> \<not> Q x) xs)
     = length xs"
  by (induction xs) auto

lemma instances_partition:
  "length (filter (\<lambda>i. state i = ''running'') instances)
     + length (filter (\<lambda>i. state i = ''stopped'') instances)
     + length (filter (\<lambda>i. state i \<noteq> ''running'' \<and> state i \<noteq> ''stopped'') instances)
   = length instances"
  by (rule filter_partition3) simp

lemma alarms_partition:
  "length (filter (\<lambda>a. alarm_state a = ''OK'') alarms)
     + length (filter (\<lambda>a. alarm_state a = ''ALARM'') alarms)
     + length (filter (\<lambda>a. alarm_state a \<noteq> ''OK'' \<and> alarm_state a \<noteq> ''ALARM'') alarms)
   = length alarms"
  by (rule filter_partition3) simp

section \<open>The tallies\<close>

text \<open>Each local variable of \<open>generate_summary\<close>, as a count over the input lists.\<close>

lemma tally_total_instances: "total_instances (tally instances alarms) = int (length instances)"
  by (simp add: tally_def Let_def len_def)

lemma tally_running:
  "running (tally instances alarms) =
     int (length (filter (\<lambda>i. state i = ''running'') instances))"
  by (simp add: tally_def Let_def py_sum_ones)

lemma tally_stopped:
  "stopped (tally instances alarms) =
     int (length (filter (\<lambda>i. state i = ''stopped'') instances))"
  by (simp add: tally_def Let_def py_sum_ones)

lemma tally_other:
  "other (tally instances alarms) =
     total_instances (tally instances alarms) - running (tally instances alarms)
       - stopped (tally instances alarms)"
  by (simp add: tally_def Let_def)

lemma tally_total_alarms: "total_alarms (tally instances alarms) = int (length alarms)"
  by (simp add: tally_def Let_def len_def)

lemma tally_alarming:
  "alarming (tally instances alarms) =
     int (length (filter (\<lambda>a. alarm_state a = ''ALARM'') alarms))"
  by (simp add: tally_def Let_def py_sum_ones)

lemma tally_ok_alarms:
  "ok_alarms (tally instances alarms) =
     int (length (filter (\<lambda>a. alarm_state a = ''OK'') alarms))"
  by (simp add: tally_def Let_def py_sum_ones)

lemmas tally_fields = tally_total_instances tally_running tally_stopped tally_other
  tally_total_alarms tally_alarming tally_ok_alarms

lemma other_counts_rest:
  "other (tally instances alarms) =
     int (length (filter (\<lambda>i. state i \<noteq> ''running'' \<and> state i \<noteq> ''stopped'') instances))"
  using instances_partition [of instances] by (simp add: tally_fields)

text \<open>
  Claim C3. For every list of instance records, the tallies of \<open>generate_summary\<close> satisfy
  \<open>running + stopped + other = total_instances\<close>, where \<open>running\<close> is the number of records
  whose state is \<open>'running'\<close>, \<open>stopped\<close> the number whose state is \<open>'stopped'\<close>, and
  \<open>total_instances\<close> the length of the list.
\<close>

theorem instance_tallies_sum:
  "running (tally instances alarms) + stopped (tally instances alarms)
     + other (tally instances alarms)
     = total_instances (tally instances alarms)
   \<and> running (tally instances alarms) =
       int (length (filter (\<lambda>i. state i = ''running'') instances))
   \<and> stopped (tally instances alarms) =
       int (length (filter (\<lambda>i. state i = ''stopped'') instances))
   \<and> total_instances (tally instances alarms) = int (length instances)"
  by (simp add: tally_fields)

text \<open>
  Claim C4. For every list of alarm records, \<open>ok + alarming + other = total_alarms\<close>, where
  \<open>ok\<close> and \<open>alarming\<close> are the program's counts of the states \<open>'OK'\<close> and \<open>'ALARM'\<close>,
  \<open>total_alarms\<close> is the length of the list, and \<open>other\<close> is the number of records in any
  remaining state. The program keeps no variable for the last count; it is written out in
  the statement.
\<close>

theorem alarm_tallies_sum:
  "ok_alarms (tally instances alarms) + alarming (tally instances alarms)
     + int (length (filter (\<lambda>a. alarm_state a \<noteq> ''OK'' \<and> alarm_state a \<noteq> ''ALARM'') alarms))
     = total_alarms (tally instances alarms)
   \<and> ok_alarms (tally instances alarms) =
       int (length (filter (\<lambda>a. alarm_state a = ''OK'') alarms))
   \<and> alarming (tally instances alarms) =
       int (length (filter (\<lambda>a. alarm_state a = ''ALARM'') alarms))
   \<and> total_alarms (tally instances alarms) = int (length alarms)"
  using alarms_partition [of alarms] by (simp add: tally_fields)

text \<open>
  Claim C9. For every list of instance records, \<open>other = total - running - stopped\<close> is not
  negative: no record is counted both as running and as stopped, so \<open>running + stopped\<close>
  is at most the length of the list.
\<close>

theorem other_instances_nonneg:
  "0 \<le> other (tally instances alarms)
   \<and> running (tally instances alarms) + stopped (tally instances alarms)
       \<le> int (length instances)
   \<and> filter (\<lambda>i. state i = ''running'' \<and> state i = ''stopped'') instances = []"
  using instances_partition [of instances] by (simp add: tally_fields)

section \<open>The overall status\<close>

lemma assessment_spec:
  "assessment t =
     status_banner
       (spec_overall_status (alarming t) (total_instances t) (running t) (total_alarms t))"
  by (auto simp: assessment_def spec_overall_status_def)

lemma inj_status_banner: "inj status_banner"
proof (rule injI)
  fix x y
  assume "status_banner x = status_banner y"
  then show "x = y"
    by (cases x; cases y) simp_all
qed

text \<open>
  Claim C1. For all lists of instance and alarm records, the overall status follows the
  fixed order, first match first: ATTENTION when the number of alarms in state \<open>'ALARM'\<close> is
  positive; else HEALTHY when there are instances and all of them run; else NO_RESOURCES
  when there are neither instances nor alarms; else PARTIAL. The program shows the status
  as the line \<open>assessment\<close> it prints between the last two rules of the summary, a
  different line for each status. In particular an alarm in state \<open>'ALARM'\<close> gives
  ATTENTION whatever the instances are.
\<close>

theorem overall_status_priority:
  "assessment (tally instances alarms) =
     status_banner (spec_overall_status
       (int (length (filter (\<lambda>a. alarm_state a = ''ALARM'') alarms)))
       (int (length instances))
       (int (length (filter (\<lambda>i. state i = ''running'') instances)))
       (int (length alarms)))
   \<and> (\<exists>before. fst (generate_summary instances alarms) =
         before @ [nl_rule50, assessment (tally instances alarms), rule50])
   \<and> inj status_banner
   \<and> ((\<exists>a \<in> set alarms. alarm_state a = ''ALARM'') \<longrightarrow>
        assessment (tally instances alarms) = status_banner ATTENTION)"
proof -
  have 1: "assessment (tally instances alarms) =
     status_banner (spec_overall_status
       (int (length (filter (\<lambda>a. alarm_state a = ''ALARM'') alarms)))
       (int (length instances))
       (int (length (filter (\<lambda>i. state i = ''running'') instances)))
       (int (length alarms)))"
    by (simp add: assessment_spec tally_fields)
  have 2: "\<exists>before. fst (generate_summary instances alarms) =
         before @ [nl_rule50, assessment (tally instances alarms), rule50]"
    by (simp add: generate_summary_def Let_def)
  have 3: "(\<exists>a \<in> set alarms. alarm_state a = ''ALARM'') \<longrightarrow>
        assessment (tally instances alarms) = status_banner ATTENTION"
  proof
    assume "\<exists>a \<in> set alarms. alarm_state a = ''ALARM''"
    then have "filter (\<lambda>a. alarm_state a = ''ALARM'') alarms \<noteq> []"
      by (simp add: filter_empty_conv)
    then have "0 < alarming (tally instances alarms)"
      by (simp add: tally_fields)
    then show "assessment (tally instances alarms) = status_banner ATTENTION"
      by (simp add: assessment_def)
  qed
  from 1 2 3 inj_status_banner show ?thesis
    by blast
qed

theorem overall_status_priority_witness:
  "(\<exists>a \<in> set [\<lparr>alarm_name = ''cpu-high'', alarm_state = ''ALARM'', metric = ''CPUUtilization'',
                     description = ''No description''\<rparr>]. alarm_state a = ''ALARM'')
   \<and> assessment (tally
         [\<lparr>instance_id = ''i-1'', instance_type = ''t2.micro'', state = ''running'',
           name = ''web''\<rparr>]
         [\<lparr>alarm_name = ''cpu-high'', alarm_state = ''ALARM'', metric = ''CPUUtilization'',
           description = ''No description''\<rparr>])
       = status_banner ATTENTION"
proof -
  let ?alarms = "[\<lparr>alarm_name = ''cpu-high'', alarm_state = ''ALARM'',
                    metric = ''CPUUtilization'', description = ''No description''\<rparr>]"
  let ?instances = "[\<lparr>instance_id = ''i-1'', instance_type = ''t2.micro'',
                       state = ''running'', name = ''web''\<rparr>]"
  have h: "\<exists>a \<in> set ?alarms. alarm_state a = ''ALARM''"
    by simp
  note imp = overall_status_priority [where alarms = ?alarms and instances = ?instances,
      THEN conjunct2, THEN conjunct2, THEN conjunct2]
  from imp h have "assessment (tally ?instances ?alarms) = status_banner ATTENTION"
    by (rule mp)
  with h show ?thesis
    by (rule conjI)
qed

section \<open>The returned summary\<close>

text \<open>
  Claim C2, as stated, says that the summary holds exactly the eight fields
  \<open>total_instances\<close>, \<open>running_instances\<close>, \<open>stopped_instances\<close>, \<open>other_instances\<close>,
  \<open>total_alarms\<close>, \<open>ok_alarms\<close>, \<open>alarming_count\<close> and \<open>overall_status\<close>. The dict that
  \<open>generate_summary\<close> returns does not: already for two empty lists its keys are not
  those eight.
\<close>

theorem summary_eight_fields_counterexample:
  "set (map fst (snd (generate_summary [] []))) \<noteq>
     {''total_instances'', ''running_instances'', ''stopped_instances'', ''other_instances'',
      ''total_alarms'', ''ok_alarms'', ''alarming_count'', ''overall_status''}"
proof -
  have "''overall_status'' \<notin> set (map fst (snd (generate_summary [] [])))"
    by (simp add: generate_summary_def Let_def summary_dict_def)
  moreover have "''overall_status'' \<in>
     {''total_instances'', ''running_instances'', ''stopped_instances'', ''other_instances'',
      ''total_alarms'', ''ok_alarms'', ''alarming_count'', ''overall_status''}"
    by simp
  ultimately show ?thesis
    by metis
qed

text \<open>
  Claim C2, amended. For every pair of input lists the summary returned holds exactly the
  five fields \<open>total_instances\<close>, \<open>running_instances\<close>, \<open>stopped_instances\<close>,
  \<open>total_alarms\<close> and \<open>active_alarms\<close> (the number of alarms in state \<open>'ALARM'\<close>), in this
  order, each a count over the two record lists and nothing else.
\<close>

theorem summary_returned_fields:
  "snd (generate_summary instances alarms) =
     [(''total_instances'', int (length instances)),
      (''running_instances'', int (length (filter (\<lambda>i. state i = ''running'') instances))),
      (''stopped_instances'', int (length (filter (\<lambda>i. state i = ''stopped'') instances))),
      (''total_alarms'', int (length alarms)),
      (''active_alarms'', int (length (filter (\<lambda>a. alarm_state a = ''ALARM'') alarms)))]"
  by (simp add: generate_summary_def Let_def summary_dict_def tally_fields)

section \<open>The order of the records\<close>

lemma count_states:
  "int (length (filter (\<lambda>x. f x = s) xs)) = int (count (mset (map f xs)) s)"
  by (induction xs) auto

lemma tally_states:
  assumes "mset (map state i1) = mset (map state i2)"
    and "mset (map alarm_state a1) = mset (map alarm_state a2)"
  shows "tally i1 a1 = tally i2 a2"
proof -
  have li: "length i1 = length i2"
    using assms(1) by (metis length_map size_mset)
  have la: "length a1 = length a2"
    using assms(2) by (metis length_map size_mset)
  have ci: "\<And>s. int (length (filter (\<lambda>i. state i = s) i1)) =
                 int (length (filter (\<lambda>i. state i = s) i2))"
    using assms(1) by (simp only: count_states)
  have ca: "\<And>s. int (length (filter (\<lambda>a. alarm_state a = s) a1)) =
                 int (length (filter (\<lambda>a. alarm_state a = s) a2))"
    using assms(2) by (simp only: count_states)
  show ?thesis
    unfolding tally_def Let_def py_sum_ones len_def
    by (simp only: li la ci ca)
qed

text \<open>
  Claim C10. For every pair of input lists and every permutation of either list,
  \<open>generate_summary\<close> gives the same result, the counts and the printed status alike:
  the result depends only on the multiset of the states of the records, not on their
  order (nor on their other fields).
\<close>

theorem summary_order_independent:
  "(mset i1 = mset i2 \<and> mset a1 = mset a2
      \<longrightarrow> generate_summary i1 a1 = generate_summary i2 a2)
   \<and> (mset (map state i1) = mset (map state i2)
        \<and> mset (map alarm_state a1) = mset (map alarm_state a2)
      \<longrightarrow> generate_summary i1 a1 = generate_summary i2 a2)"
proof -
  have states: "generate_summary i1 a1 = generate_summary i2 a2"
    if "mset (map state i1) = mset (map state i2)"
      and "mset (map alarm_state a1) = mset (map alarm_state a2)"
    using tally_states [OF that] by (simp add: generate_summary_def)
  have perm: "generate_summary i1 a1 = generate_summary i2 a2"
    if "mset i1 = mset i2" and "mset a1 = mset a2"
  proof (rule states)
    show "mset (map state i1) = mset (map state i2)"
      using that(1) by (metis mset_map)
    show "mset (map alarm_state a1) = mset (map alarm_state a2)"
      using that(2) by (metis mset_map)
  qed
  from states perm show ?thesis
    by blast
qed

theorem summary_order_independent_witness:
  "mset [\<lparr>instance_id = ''i-1'', instance_type = ''t2.micro'', state = ''running'', name = ''web''\<rparr>,
         \<lparr>instance_id = ''i-2'', instance_type = ''t3.small'', state = ''stopped'', name = ''Unnamed''\<rparr>]
     = mset [\<lparr>instance_id = ''i-2'', instance_type = ''t3.small'', state = ''stopped'', name = ''Unnamed''\<rparr>,
             \<lparr>instance_id = ''i-1'', instance_type = ''t2.micro'', state = ''running'', name = ''web''\<rparr>]
   \<and> mset [\<lparr>alarm_name = ''cpu'', alarm_state = ''OK'', metric = ''CPUUtilization'', description = ''No description''\<rparr>,
           \<lparr>alarm_name = ''disk'', alarm_state = ''INSUFFICIENT_DATA'', metric = ''DiskUsed'', description = ''d''\<rparr>]
     = mset [\<lparr>alarm_name = ''disk'', alarm_state = ''INSUFFICIENT_DATA'', metric = ''DiskUsed'', description = ''d''\<rparr>,
             \<lparr>alarm_name = ''cpu'', alarm_state = ''OK'', metric = ''CPUUtilization'', description = ''No description''\<rparr>]
   \<and> generate_summary
        [\<lparr>instance_id = ''i-1'', instance_type = ''t2.micro'', state = ''running'', name = ''web''\<rparr>,
         \<lparr>instance_id = ''i-2'', instance_type = ''t3.small'', state = ''stopped'', name = ''Unnamed''\<rparr>]
        [\<lparr>alarm_name = ''cpu'', alarm_state = ''OK'', metric = ''CPUUtilization'', description = ''No description''\<rparr>,
         \<lparr>alarm_name = ''disk'', alarm_state = ''INSUFFICIENT_DATA'', metric = ''DiskUsed'', description = ''d''\<rparr>]
     = generate_summary
        [\<lparr>instance_id = ''i-2'', instance_type = ''t3.small'', state = ''stopped'', name = ''Unnamed''\<rparr>,
         \<lparr>instance_id = ''i-1'', instance_type = ''t2.micro'', state = ''running'', name = ''web''\<rparr>]
        [\<lparr>alarm_name = ''disk'', alarm_state = ''INSUFFICIENT_DATA'', metric = ''DiskUsed'', description = ''d''\<rparr>,
         \<lparr>alarm_name = ''cpu'', alarm_state = ''OK'', metric = ''CPUUtilization'', description = ''No description''\<rparr>]
   \<and> mset (map state
        [\<lparr>instance_id = ''i-1'', instance_type = ''t2.micro'', state = ''running'', name = ''web''\<rparr>,
         \<lparr>instance_id = ''i-2'', instance_type = ''t3.small'', state = ''stopped'', name = ''Unnamed''\<rparr>])
     = mset (map state
        [\<lparr>instance_id = ''i-8'', instance_type = ''m5.large'', state = ''stopped'', name = ''db''\<rparr>,
         \<lparr>instance_id = ''i-9'', instance_type = ''m5.large'', state = ''running'', name = ''cache''\<rparr>])
   \<and> mset (map alarm_state
        [\<lparr>alarm_name = ''cpu'', alarm_state = ''OK'', metric = ''CPUUtilization'', description = ''No description''\<rparr>,
         \<lparr>alarm_name = ''disk'', alarm_state = ''INSUFFICIENT_DATA'', metric = ''DiskUsed'', description = ''d''\<rparr>])
     = mset (map alarm_state
        [\<lparr>alarm_name = ''net'', alarm_state = ''INSUFFICIENT_DATA'', metric = ''NetworkIn'', description = ''n''\<rparr>,
         \<lparr>alarm_name = ''mem'', alarm_state = ''OK'', metric = ''MemoryUsed'', description = ''m''\<rparr>])
   \<and> generate_summary
        [\<lparr>instance_id = ''i-1'', instance_type = ''t2.micro'', state = ''running'', name = ''web''\<rparr>,
         \<lparr>instance_id = ''i-2'', instance_type = ''t3.small'', state = ''stopped'', name = ''Unnamed''\<rparr>]
        [\<lparr>alarm_name = ''cpu'', alarm_state = ''OK'', metric = ''CPUUtilization'', description = ''No description''\<rparr>,
         \<lparr>alarm_name = ''disk'', alarm_state = ''INSUFFICIENT_DATA'', metric = ''DiskUsed'', description = ''d''\<rparr>]
     = generate_summary
        [\<lparr>instance_id = ''i-8'', instance_type = ''m5.large'', state = ''stopped'', name = ''db''\<rparr>,
         \<lparr>instance_id = ''i-9'', instance_type = ''m5.large'', state = ''running'', name = ''cache''\<rparr>]
        [\<lparr>alarm_name = ''net'', alarm_state = ''INSUFFICIENT_DATA'', metric = ''NetworkIn'', description = ''n''\<rparr>,
         \<lparr>alarm_name = ''mem'', alarm_state = ''OK'', metric = ''MemoryUsed'', description = ''m''\<rparr>]"
proof -
  let ?x = "\<lparr>instance_id = ''i-1'', instance_type = ''t2.micro'', state = ''running'', name = ''web''\<rparr>"
  let ?y = "\<lparr>instance_id = ''i-2'', instance_type = ''t3.small'', state = ''stopped'', name = ''Unnamed''\<rparr>"
  let ?x' = "\<lparr>instance_id = ''i-9'', instance_type = ''m5.large'', state = ''running'', name = ''cache''\<rparr>"
  let ?y' = "\<lparr>instance_id = ''i-8'', instance_type = ''m5.large'', state = ''stopped'', name = ''db''\<rparr>"
  let ?p = "\<lparr>alarm_name = ''cpu'', alarm_state = ''OK'', metric = ''CPUUtilization'', description = ''No description''\<rparr>"
  let ?q = "\<lparr>alarm_name = ''disk'', alarm_state = ''INSUFFICIENT_DATA'', metric = ''DiskUsed'', description = ''d''\<rparr>"
  let ?p' = "\<lparr>alarm_name = ''mem'', alarm_state = ''OK'', metric = ''MemoryUsed'', description = ''m''\<rparr>"
  let ?q' = "\<lparr>alarm_name = ''net'', alarm_state = ''INSUFFICIENT_DATA'', metric = ''NetworkIn'', description = ''n''\<rparr>"
  have hi: "mset [?x, ?y] = mset [?y, ?x]"
    by (simp add: add_mset_commute)
  have ha: "mset [?p, ?q] = mset [?q, ?p]"
    by (simp add: add_mset_commute)
  have si: "mset (map state [?x, ?y]) = mset (map state [?y', ?x'])"
    by (simp add: add_mset_commute)
  have sa: "mset (map alarm_state [?p, ?q]) = mset (map alarm_state [?q', ?p'])"
    by (simp add: add_mset_commute)
  note perm = summary_order_independent [where ?i1.0 = "[?x, ?y]" and ?i2.0 = "[?y, ?x]"
      and ?a1.0 = "[?p, ?q]" and ?a2.0 = "[?q, ?p]", THEN conjunct1]
  note states = summary_order_independent [where ?i1.0 = "[?x, ?y]" and ?i2.0 = "[?y', ?x']"
      and ?a1.0 = "[?p, ?q]" and ?a2.0 = "[?q', ?p']", THEN conjunct2]
  from hi ha have "mset [?x, ?y] = mset [?y, ?x] \<and> mset [?p, ?q] = mset [?q, ?p]"
    by (rule conjI)
  with perm have 1: "generate_summary [?x, ?y] [?p, ?q] = generate_summary [?y, ?x] [?q, ?p]"
    by (rule mp)
  from si sa have "mset (map state [?x, ?y]) = mset (map state [?y', ?x'])
      \<and> mset (map alarm_state [?p, ?q]) = mset (map alarm_state [?q', ?p'])"
    by (rule conjI)
  with states have 2: "generate_summary [?x, ?y] [?p, ?q] = generate_summary [?y', ?x'] [?q', ?p']"
    by (rule mp)
  from hi ha 1 si sa 2 show ?thesis
    by (intro conjI)
qed

section \<open>The instance records\<close>

lemma name_tag_find:
  "name_tag tags nm =
     (case find (\<lambda>tag. Key tag = ''Name'') tags of None \<Rightarrow> nm | Some tag \<Rightarrow> Value tag)"
  by (induction tags) simp_all

lemma instances_loop_eq:
  "instances_loop raws (out, acc) =
     (out @ concat (map (\<lambda>r. display_instance (instance_info_of r)) raws),
      acc @ map instance_info_of raws)"
  by (induction raws arbitrary: out acc) (simp_all add: Let_def)

lemma reservations_loop_eq:
  "reservations_loop rs (out, acc) =
     (out @ concat (map (\<lambda>r. display_instance (instance_info_of r))
                     (concat (map Instances rs))),
      acc @ map instance_info_of (concat (map Instances rs)))"
  by (induction rs arbitrary: out acc) (simp_all add: instances_loop_eq)

lemma check_ec2_instances_returns:
  "snd (check_ec2_instances (\<lambda>r. Returns response) rgn) =
     Inr (map instance_info_of (concat (map Instances (Reservations response))))"
  by (simp add: check_ec2_instances_def Let_def reservations_loop_eq)

text \<open>
  Claim C7. For every instance record of the provider, the record built from it has the
  provider's state string unchanged, and as its name the value of the (first) tag whose key
  is \<open>'Name'\<close>, or \<open>'Unnamed'\<close> when there is no such tag (or no tags at all). No instance
  is dropped: the check returns one record for each instance of each reservation, in
  order, whatever its state; and an instance whose state is neither \<open>'running'\<close> nor
  \<open>'stopped'\<close> is counted in \<open>other\<close>.
\<close>

theorem instance_record_contract:
  "state (instance_info_of instance) = Name (State instance)
   \<and> name (instance_info_of instance) =
       (case find (\<lambda>tag. Key tag = ''Name'')
                  (case Tags instance of None \<Rightarrow> [] | Some tags \<Rightarrow> tags) of
          None \<Rightarrow> ''Unnamed''
        | Some tag \<Rightarrow> Value tag)
   \<and> snd (check_ec2_instances (\<lambda>r. Returns response) rgn) =
       Inr (map instance_info_of (concat (map Instances (Reservations response))))
   \<and> other (tally (map instance_info_of raws) alarms) =
       int (length (filter (\<lambda>r. Name (State r) \<noteq> ''running'' \<and> Name (State r) \<noteq> ''stopped'')
                           raws))"
proof -
  have "other (tally (map instance_info_of raws) alarms) =
       int (length (filter (\<lambda>r. Name (State r) \<noteq> ''running'' \<and> Name (State r) \<noteq> ''stopped'')
                           raws))"
    by (simp add: other_counts_rest filter_map o_def instance_info_of_def)
  then show ?thesis
    by (simp add: check_ec2_instances_returns name_tag_find)
       (simp add: instance_info_of_def name_tag_find)
qed

section \<open>The indicators\<close>

lemma ec2_status_cases:
  "ec2_status st =
     (if st = ''running'' then U_2705
      else if st = ''stopped'' then U_1F6D1
      else if st = ''pending'' then U_23F3
      else if st = ''stopping'' then U_23F3
      else if st = ''terminated'' then U_1F480
      else U_26A0_FE0F)"
  by (simp add: ec2_status_def dict_get_def ec2_status_icons_def)

lemma alarm_status_cases:
  "alarm_status st =
     (if st = ''OK'' then U_2705
      else if st = ''ALARM'' then U_1F6A8
      else if st = ''INSUFFICIENT_DATA'' then U_26A0_FE0F
      else U_2753)"
  by (simp add: alarm_status_def dict_get_def alarm_status_icons_def)

text \<open>
  Claim C8. The indicator shown for an instance or an alarm is defined for every state
  string and is never empty: a state of the table gets the table's symbol, and any other
  state gets the default symbol, which is none of the table's symbols. So the default
  symbol is shown for the states outside the table and for them only.
\<close>

theorem status_indicator_total:
  "ec2_status st \<noteq> [] \<and> alarm_status st \<noteq> []
   \<and> ec2_status st =
       (if st = ''running'' then U_2705
        else if st = ''stopped'' then U_1F6D1
        else if st = ''pending'' then U_23F3
        else if st = ''stopping'' then U_23F3
        else if st = ''terminated'' then U_1F480
        else U_26A0_FE0F)
   \<and> (ec2_status st = U_26A0_FE0F) =
       (st \<notin> {''running'', ''stopped'', ''pending'', ''stopping'', ''terminated''})
   \<and> alarm_status st =
       (if st = ''OK'' then U_2705
        else if st = ''ALARM'' then U_1F6A8
        else if st = ''INSUFFICIENT_DATA'' then U_26A0_FE0F
        else U_2753)
   \<and> (alarm_status st = U_2753) = (st \<notin> {''OK'', ''ALARM'', ''INSUFFICIENT_DATA''})"
proof -
  have 1: "ec2_status st \<noteq> []"
    by (simp add: ec2_status_cases)
  have 2: "alarm_status st \<noteq> []"
    by (simp add: alarm_status_cases)
  have 3: "(ec2_status st = U_26A0_FE0F) =
       (st \<notin> {''running'', ''stopped'', ''pending'', ''stopping'', ''terminated''})"
    by (simp add: ec2_status_cases)
  have 4: "(alarm_status st = U_2753) = (st \<notin> {''OK'', ''ALARM'', ''INSUFFICIENT_DATA''})"
    by (simp add: alarm_status_cases)
  from 1 2 3 4 ec2_status_cases [of st] alarm_status_cases [of st] show ?thesis
    by blast
qed

section \<open>Missing credentials\<close>

text \<open>
  The summary of two empty lists: every count is zero and the status is NO_RESOURCES.
  \<open>generate_summary\<close> has no failing branch, on empty lists or on any others.
\<close>

lemma generate_summary_empty:
  "snd (generate_summary [] []) =
     [(''total_instances'', 0), (''running_instances'', 0), (''stopped_instances'', 0),
      (''total_alarms'', 0), (''active_alarms'', 0)]
   \<and> assessment (tally [] []) = status_banner NO_RESOURCES"
  by (simp add: generate_summary_def summary_dict_def assessment_def tally_fields)

text \<open>
  When the EC2 check ends with \<open>NoCredentialsError\<close>, the run goes on with the CloudWatch
  check and the summary of the empty instance list.
\<close>

lemma main_after_ec2_auth_failure:
  assumes "describe_instances w (args_region a) = NoCredentialsError"
    and "check_cloudwatch_alarms (describe_alarms w) (args_region a) = (out2, Inr alarms)"
    and "truthy (args_output a) = None"
  shows "main w a =
     ([CHR 0x0A # rule50, U_1F50D @ '' AWS HEALTH CHECKER'', rule50,
       U_1F4C5 @ '' Report Time: '' @ now_strftime w,
       U_1F30D @ '' Region: '' @ args_region a]
      @ fst (check_ec2_instances (describe_instances w) (args_region a))
      @ out2
      @ fst (generate_summary [] alarms)
      @ [CHR 0x0A # U_2705 @ '' Health check complete!'' @ [CHR 0x0A]],
      Inr None)"
  using assms by (simp add: main_def check_ec2_instances_def Let_def split: prod.splits)

text \<open>The same when it is the CloudWatch check that ends so.\<close>

lemma main_after_alarm_auth_failure:
  assumes "check_ec2_instances (describe_instances w) (args_region a) = (out1, Inr instances)"
    and "describe_alarms w (args_region a) = NoCredentialsError"
    and "truthy (args_output a) = None"
  shows "main w a =
     ([CHR 0x0A # rule50, U_1F50D @ '' AWS HEALTH CHECKER'', rule50,
       U_1F4C5 @ '' Report Time: '' @ now_strftime w,
       U_1F30D @ '' Region: '' @ args_region a]
      @ out1
      @ fst (check_cloudwatch_alarms (describe_alarms w) (args_region a))
      @ fst (generate_summary instances [])
      @ [CHR 0x0A # U_2705 @ '' Health check complete!'' @ [CHR 0x0A]],
      Inr None)"
  using assms by (simp add: main_def check_cloudwatch_alarms_def Let_def split: prod.splits)

text \<open>
  Claim C6 says that a check whose fetch fails for missing credentials reports the error
  with a remediation hint and returns the empty list. Both checks return the empty list.
  The EC2 check prints the error and the hint to run \<open>aws configure\<close> (lines 39-40); the
  CloudWatch check prints the error alone (line 102), with no hint.
\<close>

theorem credentials_failure_reports:
  "check_cloudwatch_alarms (\<lambda>r. NoCredentialsError) rgn =
     ([nl_rule50, ''CLOUDWATCH ALARM STATUS'', rule50,
       U_274C @ '' Error: AWS credentials not configured''],
      Inr [])
   \<and> check_ec2_instances (\<lambda>r. NoCredentialsError) rgn =
     ([nl_rule50, ''EC2 INSTANCE STATUS'', rule50,
       U_274C @ '' Error: AWS credentials not configured'',
       ''   Run '' @ [CHR 0x27] @ ''aws configure'' @ [CHR 0x27] @ '' to set up credentials''],
      Inr [])"
  by (simp add: check_cloudwatch_alarms_def check_ec2_instances_def)

section \<open>The saved report\<close>

text \<open>
  The document that \<open>save_report\<close> hands to \<open>json.dump\<close> holds the summary, the
  instances and the alarms it was given, unchanged.
\<close>

lemma save_report_keeps_summary:
  "save_report w filename rgn instances alarms smry = (out, Inr (f, rep)) \<Longrightarrow>
     f = filename \<and> report_summary rep = smry \<and> report_instances rep = instances
     \<and> report_alarms rep = alarms"
  by (auto simp: save_report_def Let_def split: if_splits)

section \<open>The scenarios of the specification\<close>

lemma scenario_partial:
  "tally [\<lparr>instance_id = ''i-1'', instance_type = ''t2.micro'', state = ''running'', name = ''a''\<rparr>,
          \<lparr>instance_id = ''i-2'', instance_type = ''t2.micro'', state = ''running'', name = ''b''\<rparr>,
          \<lparr>instance_id = ''i-3'', instance_type = ''t2.micro'', state = ''stopped'', name = ''c''\<rparr>] []
     = \<lparr>total_instances = 3, running = 2, stopped = 1, other = 0,
        total_alarms = 0, alarming = 0, ok_alarms = 0\<rparr>
   \<and> assessment \<lparr>total_instances = 3, running = 2, stopped = 1, other = 0,
        total_alarms = 0, alarming = 0, ok_alarms = 0\<rparr> = status_banner PARTIAL"
  by (simp add: tally_def Let_def len_def py_sum_def assessment_def)

lemma scenario_healthy:
  "assessment (tally
     [\<lparr>instance_id = ''i-1'', instance_type = ''t2.micro'', state = ''running'', name = ''a''\<rparr>,
      \<lparr>instance_id = ''i-2'', instance_type = ''t2.micro'', state = ''running'', name = ''b''\<rparr>] [])
   = status_banner HEALTHY"
  by (simp add: tally_def Let_def len_def py_sum_def assessment_def)

end
